theory Spec2Isabelle
  imports Main "HOL-Library.Multiset"
begin

section \<open>Host data: load-order entries, profiles, errors\<close>

text \<open>
  The host's persisted load order (\<^verbatim>\<open>ILoadOrder\<close>) is a JavaScript object from
  vortexId to entry. It is modelled as an association list in the order in which
  \<^verbatim>\<open>Object.keys\<close> enumerates it; \<^verbatim>\<open>order[key]\<close> is \<open>map_of\<close>. The optional
  \<^verbatim>\<open>locked\<close> field is an option: \<open>None\<close> is \<^verbatim>\<open>undefined\<close>.
\<close>

record ILoadOrderEntry =
  pos :: int
  enabled :: bool
  locked :: "bool option"

type_synonym ILoadOrder = "(string \<times> ILoadOrderEntry) list"

record IProfile =
  profile_id :: string
  gameId :: string

text \<open>
  A JavaScript error object: the class that \<^verbatim>\<open>instanceof\<close> tests, its message, and
  the \<^verbatim>\<open>code\<close> and \<^verbatim>\<open>path\<close> properties that file-system errors carry.
\<close>

datatype err_class = UserCanceled | ProcessCanceled | DataInvalid | NotFound | TypeError | OtherError

record js_error =
  cls :: err_class
  message :: string
  code :: "string option"
  path :: "string option"

definition mk_error :: "err_class \<Rightarrow> string \<Rightarrow> js_error" where
  "mk_error c m = \<lparr>cls = c, message = m, code = None, path = None\<rparr>"

text \<open>The settled value of a promise.\<close>

datatype 'a outcome = Resolved 'a | Rejected js_error

section \<open>The load-order item renderer (customItemRenderer.ts)\<close>

record item_props =
  profile :: IProfile
  order :: ILoadOrder
  item_id :: string

text \<open>
  The call \<^verbatim>\<open>onSetLoadOrderEntry(profile.id, item.id, entry)\<close> is the result; reading
  \<^verbatim>\<open>order[item.id].pos\<close> of an absent entry throws a TypeError.
\<close>

definition onStatusChange :: "bool \<Rightarrow> item_props \<Rightarrow> js_error + (string \<times> string \<times> ILoadOrderEntry)" where
  "onStatusChange checked props =
     (case map_of (order props) (item_id props) of
        None \<Rightarrow> Inl (mk_error TypeError ''Cannot read properties of undefined'')
      | Some e \<Rightarrow>
          Inr (profile_id (profile props), item_id props,
               \<lparr>pos = pos e,
                enabled = checked,
                locked = (if locked e \<noteq> None then locked e else Some False)\<rparr>))"

definition onLock :: "item_props \<Rightarrow> bool \<Rightarrow> js_error + (string \<times> string \<times> ILoadOrderEntry)" where
  "onLock props lock =
     (case map_of (order props) (item_id props) of
        None \<Rightarrow> Inl (mk_error TypeError ''Cannot read properties of undefined'')
      | Some e \<Rightarrow>
          Inr (profile_id (profile props), item_id props,
               \<lparr>pos = pos e, enabled = enabled e, locked = Some lock\<rparr>))"

text \<open>The locked flag as the renderer reads it: \<^verbatim>\<open>!!order[item.id]?.locked\<close>.\<close>

definition isLocked :: "ILoadOrderEntry \<Rightarrow> bool" where
  "isLocked e = (case locked e of None \<Rightarrow> False | Some b \<Rightarrow> b)"

section \<open>JavaScript string primitives used by utils\<close>

text \<open>
  \<^verbatim>\<open>String.prototype.replace\<close> with a string pattern replaces the first occurrence
  only, and expands the dollar patterns of the replacement text: two dollars give one
  dollar, dollar-ampersand the matched text, dollar-backquote the text before the match,
  dollar-quote the text after it. With a string pattern there are no captures, so a
  dollar before anything else stands for itself.
\<close>

fun split_at_first :: "string \<Rightarrow> string \<Rightarrow> (string \<times> string) option" where
  "split_at_first pat [] = (if pat = [] then Some ([], []) else None)"
| "split_at_first pat (c # cs) =
     (if take (length pat) (c # cs) = pat then Some ([], drop (length pat) (c # cs))
      else (case split_at_first pat cs of
              None \<Rightarrow> None
            | Some (b, a) \<Rightarrow> Some (c # b, a)))"

fun getSubstitution :: "string \<Rightarrow> string \<Rightarrow> string \<Rightarrow> string \<Rightarrow> string" where
  "getSubstitution m b a [] = []"
| "getSubstitution m b a [c] = [c]"
| "getSubstitution m b a (c # d # r) =
     (if c = CHR ''$'' then
        (if d = CHR ''$'' then CHR ''$'' # getSubstitution m b a r
         else if d = CHR ''&'' then m @ getSubstitution m b a r
         else if d = CHR 0x60 then b @ getSubstitution m b a r
         else if d = CHR 0x27 then a @ getSubstitution m b a r
         else c # getSubstitution m b a (d # r))
      else c # getSubstitution m b a (d # r))"

definition replace :: "string \<Rightarrow> string \<Rightarrow> string \<Rightarrow> string" where
  "replace s pat repl =
     (case split_at_first pat s of
        None \<Rightarrow> s
      | Some (b, a) \<Rightarrow> b @ getSubstitution pat b a repl @ a)"

text \<open>\<^verbatim>\<open>toLowerCase\<close> on the ASCII letters.\<close>

definition lower_char :: "char \<Rightarrow> char" where
  "lower_char c =
     (case map_of (zip ''ABCDEFGHIJKLMNOPQRSTUVWXYZ'' ''abcdefghijklmnopqrstuvwxyz'') c of
        Some l \<Rightarrow> l
      | None \<Rightarrow> c)"

definition toLowerCase :: "string \<Rightarrow> string" where
  "toLowerCase s = map lower_char s"

text \<open>
  The first match of a regular expression of the shape \<^verbatim>\<open>/open(.*?)close/\<close>, as
  \<^verbatim>\<open>s.match(re)[0]\<close> reads it: at the leftmost occurrence of \<open>open\<close> from which the
  lazy group reaches \<open>close\<close> without crossing a line terminator. \<open>None\<close> is the
  \<^verbatim>\<open>null\<close> that \<^verbatim>\<open>match\<close> returns when nothing matches.
\<close>

fun lazy_until :: "string \<Rightarrow> string \<Rightarrow> string option" where
  "lazy_until close [] = (if close = [] then Some [] else None)"
| "lazy_until close (c # cs) =
     (if take (length close) (c # cs) = close then Some close
      else if c = CHR 0x0A \<or> c = CHR 0x0D then None
      else (case lazy_until close cs of None \<Rightarrow> None | Some m \<Rightarrow> Some (c # m)))"

fun match_first :: "string \<Rightarrow> string \<Rightarrow> string \<Rightarrow> string option" where
  "match_first opn close [] = (if opn = [] \<and> close = [] then Some [] else None)"
| "match_first opn close (c # cs) =
     (if take (length opn) (c # cs) = opn then
        (case lazy_until close (drop (length opn) (c # cs)) of
           Some m \<Rightarrow> Some (opn @ m)
         | None \<Rightarrow> match_first opn close cs)
      else match_first opn close cs)"

text \<open>
  \<^verbatim>\<open>s.replace(/<[^>]*>?/gm, '')\<close>: every \<^verbatim>\<open><\<close> is removed together with the
  characters up to and including the next \<^verbatim>\<open>>\<close> (or up to the end of the string).
\<close>

fun skip_tag :: "string \<Rightarrow> string" where
  "skip_tag [] = []"
| "skip_tag (c # cs) = (if c = CHR ''>'' then cs else skip_tag cs)"

lemma length_skip_tag: "length (skip_tag s) \<le> length s"
  by (induction s) auto

function trimTags :: "string \<Rightarrow> string" where
  "trimTags [] = []"
| "trimTags (c # cs) = (if c = CHR ''<'' then trimTags (skip_tag cs) else c # trimTags cs)"
  by pat_completeness auto
termination
  by (relation "measure length") (auto simp: length_skip_tag less_Suc_eq_le)

section \<open>Module cache, launcher data and the host\<close>

text \<open>
  Modelled from the spec: the record type of the cache and the launcher entries
  (types.ts is not part of the sources). A cache record carries the id of the
  host's load order (\<^verbatim>\<open>vortexId\<close>), its dependencies and the validation lists
  \<^verbatim>\<open>invalid.cyclic\<close> and \<^verbatim>\<open>invalid.missing\<close>; an absent property is \<open>None\<close>.
\<close>

record invalid_info =
  cyclic_f :: "string list option"
  missing_f :: "string list option"

record ModuleRecord =
  vortexId :: "string option"
  dependencies :: "string list"
  invalid :: "invalid_info option"

text \<open>
  \<^verbatim>\<open>CACHE\<close> is a JavaScript \<^verbatim>\<open>Map\<close>: an association list in insertion order, which
  is the order of \<^verbatim>\<open>CACHE.keys()\<close>.
\<close>

type_synonym ModuleDataCache = "(string \<times> ModuleRecord) list"

definition cache_keys :: "ModuleDataCache \<Rightarrow> string list" where
  "cache_keys c = map fst c"

definition cache_get :: "ModuleDataCache \<Rightarrow> string \<Rightarrow> ModuleRecord option" where
  "cache_get c k = map_of c k"

fun cache_set :: "string \<Rightarrow> ModuleRecord \<Rightarrow> ModuleDataCache \<Rightarrow> ModuleDataCache" where
  "cache_set k v [] = [(k, v)]"
| "cache_set k v ((k', v') # c) = (if k' = k then (k, v) # c else (k', v') # cache_set k v c)"

record ModuleData =
  subModId :: string
  enabled_m :: bool

record LauncherData =
  singlePlayerSubMods :: "ModuleData list"
  multiplayerSubMods :: "ModuleData list"

text \<open>
  The launcher preferences document, as far as \<^verbatim>\<open>prepareForModding\<close> reads it: the
  child nodes of the two \<^verbatim>\<open>ModDatas\<close> elements, each given by the text that
  \<^verbatim>\<open>xmlNode.toString\<close> serialises; \<open>None\<close> when the query finds no element.
\<close>

record Document =
  singleplayerModDatas :: "string list option"
  multiplayerModDatas :: "string list option"

text \<open>
  The part of the host's store that utils reads: the active profile, the profiles by
  id, the persisted load order of each profile, and the discovered installation path.
\<close>

record store =
  activeProfile :: "IProfile option"
  profileById :: "string \<Rightarrow> IProfile option"
  loadOrderOf :: "string \<Rightarrow> ILoadOrder option"
  discoveryPath :: "string option"

text \<open>
  The constants of constants.ts and the collaborators of old-xml.ts and of the
  platform are not part of the sources; they are parameters. \<open>walkAsync\<close> and
  \<open>getDeployedModData\<close> give the settled value of the promise (\<open>Inl\<close> a rejection);
  \<open>tSort\<close> gives the cache as it leaves it.
\<close>

record env =
  GAME_ID :: string
  BANNERLORD_EXEC :: string
  MODULES :: string
  OFFICIAL_MODULES :: "string list"
  SUBMOD_FILE :: string
  PARAMS_TEMPLATE :: "string \<times> string"
  path_join :: "string \<Rightarrow> string \<Rightarrow> string"
  path_basename :: "string \<Rightarrow> string"
  walkAsync :: "string \<Rightarrow> js_error + string list"
  getDeployedModData :: "string list \<Rightarrow> js_error + ModuleDataCache"
  tSort :: "string list \<Rightarrow> bool \<Rightarrow> ILoadOrder option \<Rightarrow> ModuleDataCache \<Rightarrow> ModuleDataCache"
  startSteam :: "js_error option"
  getXMLData :: "js_error + Document"

text \<open>
  The module-level state of utils and the effects it has on the host: the error
  notifications shown (oldest first), the game parameters last dispatched, the number of
  calls of the refresh callback, the paths handed to the directory walker, and the cache
  as a reader finds it at each point where a rebuild waits for I/O.
\<close>

record ext_state =
  CACHE :: ModuleDataCache
  LAUNCHER_DATA :: LauncherData
  notifications :: "string list"
  gameParameters :: "(string \<times> string list) option"
  refreshed :: nat
  walked :: "string list"
  suspended :: "ModuleDataCache list"

section \<open>utils: validation query and launch parameters\<close>

text \<open>
  \<^verbatim>\<open>keys.find(key => CACHE.get(key).vortexId === v)\<close>: the first key whose record
  carries the vortexId; reading \<^verbatim>\<open>vortexId\<close> of an absent record throws a TypeError.
\<close>

fun find_vortexId :: "ModuleDataCache \<Rightarrow> string \<Rightarrow> string list \<Rightarrow> js_error + string option" where
  "find_vortexId c v [] = Inr None"
| "find_vortexId c v (key # keys) =
     (case cache_get c key of
        None \<Rightarrow> Inl (mk_error TypeError ''Cannot read properties of undefined'')
      | Some r \<Rightarrow> if vortexId r = Some v then Inr (Some key) else find_vortexId c v keys)"

text \<open>
  \<^verbatim>\<open>util.getSafe(record, ['invalid', field], [])\<close>: the fallback when the record, its
  \<^verbatim>\<open>invalid\<close> property or the field is absent.
\<close>

definition getSafe_invalid :: "(invalid_info \<Rightarrow> string list option) \<Rightarrow> ModuleRecord option \<Rightarrow> string list" where
  "getSafe_invalid field r =
     (case r of
        None \<Rightarrow> []
      | Some m \<Rightarrow> (case invalid m of
                    None \<Rightarrow> []
                  | Some i \<Rightarrow> (case field i of None \<Rightarrow> [] | Some l \<Rightarrow> l)))"

record ValidationInfo =
  cyclic :: "string list"
  missing :: "string list"

definition getValidationInfo :: "ModuleDataCache \<Rightarrow> string \<Rightarrow> js_error + ValidationInfo" where
  "getValidationInfo c modVortexId =
     (case find_vortexId c modVortexId (cache_keys c) of
        Inl e \<Rightarrow> Inl e
      | Inr found \<Rightarrow>
          (let r = (case found of None \<Rightarrow> None | Some k \<Rightarrow> cache_get c k)
           in Inr \<lparr>cyclic = getSafe_invalid cyclic_f r, missing = getSafe_invalid missing_f r\<rparr>))"

text \<open>
  \<^verbatim>\<open>loadOrder[key].enabled\<close> and \<^verbatim>\<open>loadOrder[key].pos\<close> for a key that
  \<^verbatim>\<open>Object.keys(loadOrder)\<close> enumerated (the entry is then present; the other branch
  is never taken for such a key).
\<close>

definition lo_enabled :: "ILoadOrder \<Rightarrow> string \<Rightarrow> bool" where
  "lo_enabled lo key = (case map_of lo key of Some e \<Rightarrow> enabled e | None \<Rightarrow> False)"

definition lo_pos :: "ILoadOrder \<Rightarrow> string \<Rightarrow> int" where
  "lo_pos lo key = (case map_of lo key of Some e \<Rightarrow> pos e | None \<Rightarrow> 0)"

text \<open>
  The \<^verbatim>\<open>reduce\<close> of refreshGameParams: each key is looked up in the cache by vortexId
  and the id found is pushed when it is truthy (found, and not the empty string).
\<close>

fun collect_entries :: "ModuleDataCache \<Rightarrow> string list \<Rightarrow> string list \<Rightarrow> js_error + string list" where
  "collect_entries c accum [] = Inr accum"
| "collect_entries c accum (key # keys) =
     (case find_vortexId c key (cache_keys c) of
        Inl e \<Rightarrow> Inl e
      | Inr None \<Rightarrow> collect_entries c accum keys
      | Inr (Some entry) \<Rightarrow>
          if entry \<noteq> [] then collect_entries c (accum @ [entry]) keys
          else collect_entries c accum keys)"

text \<open>
  The constant \<^verbatim>\<open>enabled\<close> of refreshGameParams. \<open>None\<close> is an undefined load order.
  \<^verbatim>\<open>Array.prototype.sort\<close> is stable, and so is \<open>sort_key\<close>.
\<close>

definition enabledSubMods :: "ModuleDataCache \<Rightarrow> LauncherData \<Rightarrow> ILoadOrder option \<Rightarrow> js_error + string list" where
  "enabledSubMods c ld loadOrder =
     (if loadOrder \<noteq> None \<and> length (map fst (the loadOrder)) > 0 then
        collect_entries c []
          (sort_key (lo_pos (the loadOrder))
             (filter (lo_enabled (the loadOrder)) (map fst (the loadOrder))))
      else Inr (map subModId (filter enabled_m (singlePlayerSubMods ld))))"

definition formatSubModIds :: "string list \<Rightarrow> string" where
  "formatSubModIds ids = concat (map (\<lambda>key. CHR ''*'' # key) ids)"

definition refreshGameParams :: "env \<Rightarrow> ILoadOrder option \<Rightarrow> ext_state \<Rightarrow> unit outcome \<times> ext_state" where
  "refreshGameParams ev loadOrder st =
     (case enabledSubMods (CACHE st) (LAUNCHER_DATA st) loadOrder of
        Inl e \<Rightarrow> (Rejected e, st)
      | Inr en \<Rightarrow>
          (let parameters =
                 [replace (fst (PARAMS_TEMPLATE ev)) ''{{gameMode}}'' ''singleplayer'',
                  replace (snd (PARAMS_TEMPLATE ev)) ''{{subModIds}}'' (formatSubModIds en)]
           in (Resolved (), st\<lparr>gameParameters := Some (BANNERLORD_EXEC ev, parameters)\<rparr>)))"

section \<open>utils: scanning and rebuilding the cache\<close>

definition notify :: "string \<Rightarrow> ext_state \<Rightarrow> ext_state" where
  "notify msg st = st\<lparr>notifications := notifications st @ [msg]\<rparr>"

text \<open>A point where the rebuild waits for I/O and a reader may look at the cache.\<close>

definition await_io :: "ext_state \<Rightarrow> ext_state" where
  "await_io st = st\<lparr>suspended := suspended st @ [CACHE st]\<rparr>"

definition isMissingOfficialModules :: "env \<Rightarrow> js_error \<Rightarrow> js_error + bool" where
  "isMissingOfficialModules ev err =
     (if code err = Some ''ENOENT'' then
        (case path err of
           None \<Rightarrow> Inl (mk_error TypeError ''The path argument must be of type string'')
         | Some p \<Rightarrow> Inr (path_basename ev p \<in> set (MODULES ev # OFFICIAL_MODULES ev)))
      else Inr False)"

definition getDeployedSubModPaths :: "env \<Rightarrow> store \<Rightarrow> ext_state \<Rightarrow> string list outcome \<times> ext_state" where
  "getDeployedSubModPaths ev sto st =
     (case discoveryPath sto of
        None \<Rightarrow> (Rejected (mk_error ProcessCanceled ''game discovery is incomplete''), st)
      | Some dp \<Rightarrow>
          (let modulePath = path_join ev dp (MODULES ev);
               st1 = await_io (st\<lparr>walked := walked st @ [modulePath]\<rparr>)
           in case walkAsync ev modulePath of
                Inr moduleFiles \<Rightarrow>
                  (Resolved (filter (\<lambda>file. toLowerCase (path_basename ev file) = SUBMOD_FILE ev)
                               moduleFiles), st1)
              | Inl err \<Rightarrow>
                  if cls err = UserCanceled then (Resolved [], st1)
                  else (case isMissingOfficialModules ev err of
                          Inl e \<Rightarrow> (Rejected e, st1)
                        | Inr official \<Rightarrow>
                            (let errorMsg =
                                   (if official
                                    then ''Game files are missing - please re-install the game''
                                    else message err)
                             in (Resolved [], notify errorMsg st1)))))"

text \<open>
  The block that both refreshCacheOnEvent (lines 38 to 42) and prepareForModding (lines
  248 to 252) run: clear the cache, scan, read the manifests, and set every entry read.
\<close>

definition rebuildCache :: "env \<Rightarrow> store \<Rightarrow> ext_state \<Rightarrow> unit outcome \<times> ext_state" where
  "rebuildCache ev sto st =
     (case getDeployedSubModPaths ev sto (st\<lparr>CACHE := []\<rparr>) of
        (Rejected e, st1) \<Rightarrow> (Rejected e, st1)
      | (Resolved deployedSubModules, st1) \<Rightarrow>
          (let st2 = await_io st1
           in case getDeployedModData ev deployedSubModules of
                Inl e \<Rightarrow> (Rejected e, st2)
              | Inr data \<Rightarrow>
                  (Resolved (),
                   st2\<lparr>CACHE := foldl (\<lambda>c (key, val). cache_set key val c) (CACHE st2) data\<rparr>)))"

definition getSafe_loadOrder :: "store \<Rightarrow> string \<Rightarrow> ILoadOrder" where
  "getSafe_loadOrder sto pid = (case loadOrderOf sto pid of None \<Rightarrow> [] | Some lo \<Rightarrow> lo)"

text \<open>
  refreshCacheOnEvent. \<open>refreshFunc\<close> tells whether a refresh callback was given;
  \<open>profileId = None\<close> is an undefined profile id.
\<close>

definition refreshCacheOnEvent :: "env \<Rightarrow> store \<Rightarrow> bool \<Rightarrow> string option \<Rightarrow> ext_state \<Rightarrow> unit outcome \<times> ext_state" where
  "refreshCacheOnEvent ev sto refreshFunc profileId st =
     (let st0 = st\<lparr>CACHE := []\<rparr> in
      if profileId = None then (Resolved (), st0)
      else
        (let activeP = activeProfile sto;
             deployP = profileById sto (the profileId)
         in if activeP \<noteq> None \<and> deployP \<noteq> None \<and>
               profile_id (the deployP) \<noteq> profile_id (the activeP)
            then (Resolved (), st0)
            else if map_option gameId activeP \<noteq> Some (GAME_ID ev) then (Resolved (), st0)
            else
              (case rebuildCache ev sto st0 of
                 (Rejected err, st1) \<Rightarrow>
                   (if cls err = ProcessCanceled then Resolved () else Rejected err, st1)
               | (Resolved u, st1) \<Rightarrow>
                   (let loadOrder = getSafe_loadOrder sto (profile_id (the activeP));
                        st2 = st1\<lparr>CACHE := tSort ev (cache_keys (CACHE st1)) True
                                               (Some loadOrder) (CACHE st1)\<rparr>;
                        st3 = (if refreshFunc then st2\<lparr>refreshed := Suc (refreshed st2)\<rparr>
                               else st2)
                    in refreshGameParams ev (Some loadOrder) st3))))"

section \<open>utils: reading the launcher preferences (prepareForModding)\<close>

text \<open>
  The message of the TypeError that indexing \<^verbatim>\<open>null\<close> throws. The text is the
  engine's (this is the one of V8) and differs between engines and versions; nothing
  below depends on it, only on the class of the error and on where the message goes.
\<close>

definition null_index_message :: string where
  "null_index_message =
     ''Cannot read properties of null (reading '' @ [CHR 0x27, CHR ''0'', CHR 0x27] @ '')''"

text \<open>
  createDataElement, on the serialised text of a node. \<open>Inr None\<close> is the \<^verbatim>\<open>null\<close> it
  returns for a node whose text is empty once blanks are removed; indexing the \<^verbatim>\<open>null\<close>
  that \<^verbatim>\<open>match\<close> returns throws a TypeError.
\<close>

definition removeBlanks :: "string \<Rightarrow> string" where
  "removeBlanks s =
     filter (\<lambda>c. c \<noteq> CHR '' '' \<and> c \<noteq> CHR 0x09 \<and> c \<noteq> CHR 0x0D \<and> c \<noteq> CHR 0x0A) s"

definition createDataElement :: "string \<Rightarrow> js_error + ModuleData option" where
  "createDataElement xmlNode =
     (let nodeString = removeBlanks xmlNode
      in if nodeString \<noteq> [] then
           (case match_first ''<Id>'' ''</Id>'' nodeString of
              None \<Rightarrow> Inl (mk_error TypeError null_index_message)
            | Some idm \<Rightarrow>
                (case match_first ''<IsSelected>'' ''</IsSelected>'' nodeString of
                   None \<Rightarrow> Inl (mk_error TypeError null_index_message)
                 | Some selm \<Rightarrow>
                     Inr (Some \<lparr>subModId = trimTags idm,
                                enabled_m = (trimTags (toLowerCase selm) = ''true'')\<rparr>)))
         else Inr None)"

text \<open>The \<^verbatim>\<open>reduce\<close> over the child nodes: a node without data element is skipped.\<close>

fun collect_elements :: "ModuleData list \<Rightarrow> string list \<Rightarrow> js_error + ModuleData list" where
  "collect_elements accum [] = Inr accum"
| "collect_elements accum (n # ns) =
     (case createDataElement n of
        Inl e \<Rightarrow> Inl e
      | Inr None \<Rightarrow> collect_elements accum ns
      | Inr (Some dataElement) \<Rightarrow> collect_elements (accum @ [dataElement]) ns)"

text \<open>
  The callback that receives the parsed document (lines 226 to 246): whatever is thrown
  inside is rejected as DataInvalid with the message thrown.
\<close>

definition readLauncherData :: "Document \<Rightarrow> ext_state \<Rightarrow> unit outcome \<times> ext_state" where
  "readLauncherData launcherData st =
     (case singleplayerModDatas launcherData of
        None \<Rightarrow> (Rejected (mk_error DataInvalid ''Cannot read properties of undefined''), st)
      | Some singlePlayerMods \<Rightarrow>
          (case multiplayerModDatas launcherData of
             None \<Rightarrow> (Rejected (mk_error DataInvalid ''Cannot read properties of undefined''), st)
           | Some multiPlayerMods \<Rightarrow>
               (case collect_elements [] singlePlayerMods of
                  Inl e \<Rightarrow> (Rejected (mk_error DataInvalid (message e)), st)
                | Inr sp \<Rightarrow>
                    (let st1 = st\<lparr>LAUNCHER_DATA := (LAUNCHER_DATA st)\<lparr>singlePlayerSubMods := sp\<rparr>\<rparr>
                     in case collect_elements [] multiPlayerMods of
                          Inl e \<Rightarrow> (Rejected (mk_error DataInvalid (message e)), st1)
                        | Inr mp \<Rightarrow>
                            (Resolved (),
                             st1\<lparr>LAUNCHER_DATA := (LAUNCHER_DATA st1)\<lparr>multiplayerSubMods := mp\<rparr>\<rparr>)))))"

text \<open>
  prepareForModding from the launcher data on (the registration of the launcher and of
  the modding kit before it only dispatches tool entries to the host). The promise
  chain (lines 226 to 259) starts the store, reads the document, extracts the entries,
  rebuilds the cache and sorts it; a rejection skips the steps that follow.
\<close>

definition prepare_chain :: "env \<Rightarrow> store \<Rightarrow> ext_state \<Rightarrow> unit outcome \<times> ext_state" where
  "prepare_chain ev sto st =
     (case startSteam ev of
        Some e \<Rightarrow> (Rejected e, st)
      | None \<Rightarrow>
          (case getXMLData ev of
             Inl e \<Rightarrow> (Rejected e, st)
           | Inr launcherData \<Rightarrow>
               (case readLauncherData launcherData st of
                  (Rejected e, st1) \<Rightarrow> (Rejected e, st1)
                | (Resolved u, st1) \<Rightarrow>
                    (case rebuildCache ev sto st1 of
                       (Rejected e, st2) \<Rightarrow> (Rejected e, st2)
                     | (Resolved u', st2) \<Rightarrow>
                         (Resolved (),
                          st2\<lparr>CACHE := tSort ev (cache_keys (CACHE st2)) True None
                                          (CACHE st2)\<rparr>)))))"

text \<open>The \<^verbatim>\<open>catch\<close> handler of the chain (lines 260 to 272).\<close>

definition prepare_catch :: "unit outcome \<times> ext_state \<Rightarrow> unit outcome \<times> ext_state" where
  "prepare_catch rs =
     (case rs of
        (Resolved u, st) \<Rightarrow> (Resolved (), st)
      | (Rejected err, st) \<Rightarrow>
          if cls err = NotFound
          then (Resolved (), notify ''Failed to find game launcher data'' st)
          else if cls err = ProcessCanceled
          then (Rejected err, notify ''Failed to find game launcher data'' st)
          else (Rejected err, st))"

text \<open>
  The \<^verbatim>\<open>finally\<close> handler (lines 273 to 283): the game parameters are emitted
  whatever the outcome, which is kept unless the handler itself rejects.
\<close>

definition prepare_finally :: "env \<Rightarrow> store \<Rightarrow> unit outcome \<times> ext_state \<Rightarrow> unit outcome \<times> ext_state" where
  "prepare_finally ev sto rs =
     (let loadOrder =
            (case activeProfile sto of
               None \<Rightarrow> []
             | Some ap \<Rightarrow> getSafe_loadOrder sto (profile_id ap))
      in case refreshGameParams ev (Some loadOrder) (snd rs) of
           (Rejected e, st) \<Rightarrow> (Rejected e, st)
         | (Resolved u, st) \<Rightarrow> (fst rs, st))"

definition prepareForModding :: "env \<Rightarrow> store \<Rightarrow> ext_state \<Rightarrow> unit outcome \<times> ext_state" where
  "prepareForModding ev sto st = prepare_finally ev sto (prepare_catch (prepare_chain ev sto st))"

section \<open>The reconciliation as the specification words it\<close>

text \<open>
  The cache id of the record carrying a vortexId: the id of the first record, in scan
  order, whose \<^verbatim>\<open>vortexId\<close> is the one asked for.
\<close>

definition cacheIdOf :: "ModuleDataCache \<Rightarrow> string \<Rightarrow> string option" where
  "cacheIdOf c v = map_option fst (List.find (\<lambda>(k, r). vortexId r = Some v) c)"


text \<open>The fallback: the enabled singleplayer entries of the launcher preferences.\<close>

definition launcher_fallback :: "LauncherData \<Rightarrow> string list" where
  "launcher_fallback ld = map subModId (filter enabled_m (singlePlayerSubMods ld))"

text \<open>A validation list, empty when the field is absent.\<close>

definition or_empty :: "string list option \<Rightarrow> string list" where
  "or_empty l = (case l of None \<Rightarrow> [] | Some xs \<Rightarrow> xs)"

text \<open>
  A refresh event for a profile other than the active one, and an active profile of
  another game (or none).
\<close>

definition foreign_profile :: "store \<Rightarrow> string \<Rightarrow> bool" where
  "foreign_profile sto pid =
     (case (activeProfile sto, profileById sto pid) of
        (Some ap, Some dp) \<Rightarrow> profile_id dp \<noteq> profile_id ap
      | _ \<Rightarrow> False)"

definition foreign_game :: "env \<Rightarrow> store \<Rightarrow> bool" where
  "foreign_game ev sto =
     (case activeProfile sto of None \<Rightarrow> True | Some ap \<Rightarrow> gameId ap \<noteq> GAME_ID ev)"

text \<open>The state in which the directory walk is awaited.\<close>

definition at_walk :: "env \<Rightarrow> string \<Rightarrow> ext_state \<Rightarrow> ext_state" where
  "at_walk ev dp st = await_io (st\<lparr>walked := walked st @ [path_join ev dp (MODULES ev)]\<rparr>)"

text \<open>
  What readers saw of the cache while a call ran from \<open>st\<close> to \<open>st'\<close>. Only the
  emptied cache was seen when every entry is empty. Under a rebuild that builds aside
  and swaps, every entry would be the cache before the call or the cache after it.
\<close>

definition seen_during :: "ext_state \<Rightarrow> ext_state \<Rightarrow> ModuleDataCache list" where
  "seen_during st st' = drop (length (suspended st)) (suspended st')"

definition only_empty_seen :: "ext_state \<Rightarrow> ext_state \<Rightarrow> bool" where
  "only_empty_seen st st' =
     (take (length (suspended st)) (suspended st') = suspended st \<and>
      list_all (\<lambda>c. c = []) (seen_during st st'))"

definition swap_atomic :: "ext_state \<Rightarrow> ext_state \<Rightarrow> bool" where
  "swap_atomic st st' = list_all (\<lambda>c. c = CACHE st \<or> c = CACHE st') (seen_during st st')"



text \<open>The test a key passes in \<open>find_vortexId\<close>.\<close>

definition carries :: "ModuleDataCache \<Rightarrow> string \<Rightarrow> string \<Rightarrow> bool" where
  "carries c v k = (case cache_get c k of Some r \<Rightarrow> vortexId r = Some v | None \<Rightarrow> False)"

section \<open>A concrete installation\<close>

text \<open>
  The base name of a path without drive prefix: the last component, separators at the
  end ignored; a slash and a backslash both separate.
\<close>

definition is_sep :: "char \<Rightarrow> bool" where
  "is_sep c = (c = CHR ''/'' \<or> c = CHR 0x5C)"

definition demo_basename :: "string \<Rightarrow> string" where
  "demo_basename p = rev (takeWhile (\<lambda>c. \<not> is_sep c) (dropWhile is_sep (rev p)))"

definition demo_env ::
  "(string \<Rightarrow> js_error + string list) \<Rightarrow> (string list \<Rightarrow> js_error + ModuleDataCache) \<Rightarrow>
   (js_error + Document) \<Rightarrow> env" where
  "demo_env walk read doc =
     \<lparr>GAME_ID = ''mountandblade2bannerlord'',
      BANNERLORD_EXEC = ''Bannerlord.exe'',
      MODULES = ''Modules'',
      OFFICIAL_MODULES = [''Native'', ''CustomBattle'', ''StoryMode''],
      SUBMOD_FILE = ''submodule.xml'',
      PARAMS_TEMPLATE = (''/{{gameMode}}'', ''_MODULES_{{subModIds}}*_MODULES_''),
      path_join = (\<lambda>a b. a @ ''/'' @ b),
      path_basename = demo_basename,
      walkAsync = walk,
      getDeployedModData = read,
      tSort = (\<lambda>ids allowLocked lo c. c),
      startSteam = None,
      getXMLData = doc\<rparr>"

definition demo_profile :: "string \<Rightarrow> IProfile" where
  "demo_profile pid = \<lparr>profile_id = pid, gameId = ''mountandblade2bannerlord''\<rparr>"

definition demo_store :: "string option \<Rightarrow> store" where
  "demo_store dp =
     \<lparr>activeProfile = Some (demo_profile ''p1''),
      profileById = (\<lambda>pid. if pid = ''p1'' \<or> pid = ''p2'' then Some (demo_profile pid) else None),
      loadOrderOf = (\<lambda>pid. None),
      discoveryPath = dp\<rparr>"

definition demo_record :: "string \<Rightarrow> ModuleRecord" where
  "demo_record v = \<lparr>vortexId = Some v, dependencies = [], invalid = None\<rparr>"

definition demo_state :: "ModuleDataCache \<Rightarrow> ModuleData list \<Rightarrow> ext_state" where
  "demo_state c sp =
     \<lparr>CACHE = c,
      LAUNCHER_DATA = \<lparr>singlePlayerSubMods = sp, multiplayerSubMods = []\<rparr>,
      notifications = [],
      gameParameters = None,
      refreshed = 0,
      walked = [],
      suspended = []\<rparr>"

definition demo_walk_ok :: "string \<Rightarrow> js_error + string list" where
  "demo_walk_ok p = Inr [''C:/game/Modules/New/SubModule.xml'', ''C:/game/Modules/New/readme.txt'']"

definition demo_read :: "string list \<Rightarrow> js_error + ModuleDataCache" where
  "demo_read files = Inr (map (\<lambda>f. (''New'', demo_record ''New'')) files)"

definition demo_walk_enoent :: "string \<Rightarrow> string \<Rightarrow> js_error + string list" where
  "demo_walk_enoent gone p =
     Inl \<lparr>cls = OtherError, message = ''ENOENT: no such file or directory'',
          code = Some ''ENOENT'', path = Some gone\<rparr>"



section \<open>Lookup by vortexId and the sorted keys\<close>

lemma find_vortexId_keys:
  "set ks \<subseteq> fst ` set c \<Longrightarrow> find_vortexId c v ks = Inr (List.find (carries c v) ks)"
proof (induction ks)
  case Nil
  then show ?case by simp
next
  case (Cons k ks)
  then obtain r where "map_of c k = Some r"
    by (metis (no_types, lifting) domD dom_map_of_conv_image_fst insert_subset list.simps(15))
  with Cons show ?case by (simp add: carries_def cache_get_def)
qed

lemma find_vortexId_total: "find_vortexId c v (cache_keys c) = Inr (List.find (carries c v) (cache_keys c))"
  by (rule find_vortexId_keys) (simp add: cache_keys_def)

lemma find_over_map: "List.find P (map f xs) = map_option f (List.find (\<lambda>x. P (f x)) xs)"
  by (induction xs) auto

lemma find_keys_entries:
  assumes "distinct (map fst c)"
  shows "List.find (carries c v) (cache_keys c) = cacheIdOf c v"
proof -
  have "\<And>x. x \<in> set c \<Longrightarrow> carries c v (fst x) = (vortexId (snd x) = Some v)"
    using assms by (auto simp: carries_def cache_get_def)
  then have "List.find (carries c v \<circ> fst) c = List.find (\<lambda>x. vortexId (snd x) = Some v) c"
    by (intro find_cong) auto
  moreover have "List.find (carries c v) (map fst c) = map_option fst (List.find (carries c v \<circ> fst) c)"
    by (simp add: find_over_map comp_def)
  ultimately show ?thesis
    by (simp add: cacheIdOf_def cache_keys_def case_prod_unfold)
qed







text \<open>
  The sorted keys are the enabled keys, each once, in ascending position; entries of one
  position keep the order in which the load order enumerates them.
\<close>

lemma sorted_enabled_keys:
  "sorted (map (pos \<circ> snd) (sort_key (pos \<circ> snd) (filter (enabled \<circ> snd) lo))) \<and>
   mset (sort_key (pos \<circ> snd) (filter (enabled \<circ> snd) lo)) = mset (filter (enabled \<circ> snd) lo) \<and>
   filter (\<lambda>x. (pos \<circ> snd) x = k) (sort_key (pos \<circ> snd) (filter (enabled \<circ> snd) lo)) =
     filter (\<lambda>x. (pos \<circ> snd) x = k) (filter (enabled \<circ> snd) lo)"
  by (simp only: sorted_sort_key mset_sort sort_key_stable simp_thms)


lemma find_carries_None:
  assumes "\<forall>r \<in> snd ` set c. vortexId r \<noteq> Some v"
  shows "List.find (carries c v) ks = None"
proof -
  have "\<not> carries c v k" for k
  proof (cases "map_of c k")
    case None
    then show ?thesis by (simp add: carries_def cache_get_def)
  next
    case (Some r)
    then have "r \<in> snd ` set c" by (force dest: map_of_SomeD)
    with assms have "vortexId r \<noteq> Some v" by blast
    with Some show ?thesis by (simp add: carries_def cache_get_def)
  qed
  then show ?thesis by (simp add: find_None_iff)
qed

lemma cacheIdOf_Some:
  "List.find (\<lambda>(k, r). vortexId r = Some v) c = Some (k, r) \<Longrightarrow> cacheIdOf c v = Some k"
  by (simp add: cacheIdOf_def)

lemma find_in_set: "List.find P xs = Some x \<Longrightarrow> x \<in> set xs"
  by (induction xs) (auto split: if_splits)




section \<open>What a rebuild shows of the cache\<close>

lemma only_empty_seenI:
  "suspended st' = suspended st @ xs \<Longrightarrow> set xs \<subseteq> {[]} \<Longrightarrow> only_empty_seen st st'"
  by (auto simp: only_empty_seen_def seen_during_def list_all_iff)

lemma scan_seen:
  assumes "CACHE st = []"
  shows "CACHE (snd (getDeployedSubModPaths ev sto st)) = [] \<and>
         (\<exists>xs. suspended (snd (getDeployedSubModPaths ev sto st)) = suspended st @ xs \<and> set xs \<subseteq> {[]})"
  using assms
  by (auto simp: getDeployedSubModPaths_def await_io_def notify_def Let_def
      split: option.splits sum.splits)

lemma rebuild_seen:
  "\<exists>xs. suspended (snd (rebuildCache ev sto st)) = suspended st @ xs \<and> set xs \<subseteq> {[]}"
proof -
  let ?s0 = "st\<lparr>CACHE := []\<rparr>"
  obtain r s1 where g: "getDeployedSubModPaths ev sto ?s0 = (r, s1)" by force
  from scan_seen [of ?s0 ev sto] g
  obtain xs where c: "CACHE s1 = []" and x: "suspended s1 = suspended st @ xs" "set xs \<subseteq> {[]}"
    by auto
  show ?thesis
  proof (cases r)
    case (Rejected e)
    with g x show ?thesis by (simp add: rebuildCache_def)
  next
    case (Resolved files)
    with g c x have "suspended (snd (rebuildCache ev sto st)) = suspended st @ (xs @ [[]])"
      by (simp add: rebuildCache_def await_io_def Let_def split: sum.splits)
    moreover from x have "set (xs @ [[]]) \<subseteq> {[]}" by simp
    ultimately show ?thesis by blast
  qed
qed

lemma rebuild_forgets: "rebuildCache ev sto (st\<lparr>CACHE := c\<rparr>) = rebuildCache ev sto st"
  by (simp add: rebuildCache_def)

lemma refreshGameParams_suspended:
  "suspended (snd (refreshGameParams ev lo st)) = suspended st"
  by (simp add: refreshGameParams_def Let_def split: sum.splits)

lemma readLauncherData_suspended:
  "suspended (snd (readLauncherData doc st)) = suspended st"
  by (simp add: readLauncherData_def Let_def split: option.splits sum.splits)

lemma refresh_seen:
  "\<exists>xs. suspended (snd (refreshCacheOnEvent ev sto rf pid st)) = suspended st @ xs \<and> set xs \<subseteq> {[]}"
proof -
  from rebuild_seen [of ev sto "st\<lparr>CACHE := []\<rparr>"]
  obtain xs where x: "suspended (snd (rebuildCache ev sto (st\<lparr>CACHE := []\<rparr>))) = suspended st @ xs"
    "set xs \<subseteq> {[]}" by auto
  obtain r s1 where g: "rebuildCache ev sto (st\<lparr>CACHE := []\<rparr>) = (r, s1)" by force
  with x have "suspended s1 = suspended st @ xs" by simp
  with g x(2) show ?thesis
    by (cases r)
       (auto simp: refreshCacheOnEvent_def Let_def refreshGameParams_suspended)
qed

lemma fill_empty:
  "distinct (map fst d) \<Longrightarrow> fst ` set c \<inter> fst ` set d = {} \<Longrightarrow>
   foldl (\<lambda>c (key, val). cache_set key val c) c d = c @ d"
proof (induction d arbitrary: c)
  case Nil
  then show ?case by simp
next
  case (Cons a d)
  have app: "k \<notin> fst ` set c \<Longrightarrow> cache_set k v c = c @ [(k, v)]" for k v and c :: ModuleDataCache
    by (induction c) auto
  from Cons.prems have "cache_set (fst a) (snd a) c = c @ [a]"
    by (intro app [THEN trans]) auto
  moreover from Cons.prems have "fst ` set (c @ [a]) \<inter> fst ` set d = {}" by auto
  moreover from Cons.prems have "distinct (map fst d)" by simp
  ultimately show ?case using Cons.IH [of "c @ [a]"] by (simp add: case_prod_unfold)
qed

lemma chain_seen:
  "\<exists>xs. suspended (snd (prepare_chain ev sto st)) = suspended st @ xs \<and> set xs \<subseteq> {[]}"
proof (cases "startSteam ev")
  case (Some e)
  then show ?thesis by (simp add: prepare_chain_def)
next
  case None
  show ?thesis
  proof (cases "getXMLData ev")
    case (Inl e)
    with None show ?thesis by (simp add: prepare_chain_def)
  next
    case (Inr doc)
    obtain r s where rd: "readLauncherData doc st = (r, s)" by force
    then have s: "suspended s = suspended st"
      using readLauncherData_suspended [of doc st] by simp
    show ?thesis
    proof (cases r)
      case (Rejected e)
      with None Inr rd s show ?thesis by (simp add: prepare_chain_def)
    next
      case (Resolved u)
      obtain r' s' where rb: "rebuildCache ev sto s = (r', s')" by force
      with rebuild_seen [of ev sto s] s
      obtain xs where "suspended s' = suspended st @ xs" "set xs \<subseteq> {[]}" by auto
      with None Inr rd Resolved rb show ?thesis
        by (cases r') (auto simp: prepare_chain_def)
    qed
  qed
qed

lemma catch_suspended: "suspended (snd (prepare_catch rs)) = suspended (snd rs)"
  by (cases rs) (auto simp: prepare_catch_def notify_def split: outcome.splits)

lemma finally_suspended: "suspended (snd (prepare_finally ev sto rs)) = suspended (snd rs)"
proof -
  obtain r s where g: "refreshGameParams ev
      (Some (case activeProfile sto of None \<Rightarrow> [] | Some ap \<Rightarrow> getSafe_loadOrder sto (profile_id ap)))
      (snd rs) = (r, s)" by force
  with refreshGameParams_suspended [of ev _ "snd rs"] have "suspended s = suspended (snd rs)"
    by (metis snd_conv)
  with g show ?thesis by (cases r) (simp_all add: prepare_finally_def)
qed

lemma prepare_seen:
  "\<exists>xs. suspended (snd (prepareForModding ev sto st)) = suspended st @ xs \<and> set xs \<subseteq> {[]}"
  using chain_seen [of ev sto st]
  by (simp add: prepareForModding_def finally_suspended catch_suspended)

lemma rebuild_result:
  assumes "distinct (map fst d)"
    and "fst (getDeployedSubModPaths ev sto (st\<lparr>CACHE := []\<rparr>)) = Resolved files"
    and "getDeployedModData ev files = Inr d"
  shows "CACHE (snd (rebuildCache ev sto st)) = d"
proof -
  obtain s1 where g: "getDeployedSubModPaths ev sto (st\<lparr>CACHE := []\<rparr>) = (Resolved files, s1)"
    using assms(2) by (cases "getDeployedSubModPaths ev sto (st\<lparr>CACHE := []\<rparr>)") auto
  with scan_seen [of "st\<lparr>CACHE := []\<rparr>" ev sto] have "CACHE s1 = []" by simp
  with g assms(1,3) show ?thesis
    using fill_empty [of d "[]"]
    by (simp add: rebuildCache_def await_io_def Let_def)
qed

section \<open>Data elements of the launcher preferences\<close>



lemma createDataElement_blank: "(createDataElement n = Inr None) = (removeBlanks n = [])"
  by (auto simp: createDataElement_def Let_def split: option.splits)


lemma collect_elements_skips:
  "collect_elements accum ns = collect_elements accum (filter (\<lambda>n. removeBlanks n \<noteq> []) ns)"
proof (induction ns arbitrary: accum)
  case Nil
  then show ?case by simp
next
  case (Cons a ns)
  show ?case
  proof (cases "removeBlanks a = []")
    case True
    then have "createDataElement a = Inr None" by (simp add: createDataElement_blank)
    with True Cons show ?thesis by simp
  next
    case False
    with Cons show ?thesis by (simp split: sum.splits option.splits)
  qed
qed






section \<open>Substitution into the parameter template\<close>

text \<open>
  A replacement text without a dollar sign is substituted as it is, for the first
  occurrence of the placeholder; then the game parameters are the two fragments with the
  game mode and the starred ids in place of the placeholders.
\<close>

lemma getSubstitution_plain: "CHR ''$'' \<notin> set repl \<Longrightarrow> getSubstitution m b a repl = repl"
  by (induction m b a repl rule: getSubstitution.induct) auto

lemma split_at_first_decomp: "split_at_first pat s = Some (b, a) \<Longrightarrow> s = b @ pat @ a"
proof (induction pat s arbitrary: b a rule: split_at_first.induct)
  case (1 pat)
  then show ?case by (simp split: if_splits)
next
  case (2 pat c cs)
  show ?case
  proof (cases "take (length pat) (c # cs) = pat")
    case True
    with "2.prems" have "b = []" "a = drop (length pat) (c # cs)" by simp_all
    with True show ?thesis by (metis append_Nil append_take_drop_id)
  next
    case False
    with "2.prems" obtain b' where "split_at_first pat cs = Some (b', a)" "b = c # b'"
      by (auto split: option.splits)
    with "2.IH" False show ?thesis by simp
  qed
qed

lemma replace_plain:
  "CHR ''$'' \<notin> set repl \<Longrightarrow> split_at_first pat s = Some (b, a) \<Longrightarrow>
   replace s pat repl = b @ repl @ a"
  by (simp add: replace_def getSubstitution_plain)

lemma formatSubModIds_plain:
  "\<forall>i \<in> set ids. CHR ''$'' \<notin> set i \<Longrightarrow> CHR ''$'' \<notin> set (formatSubModIds ids)"
  by (auto simp: formatSubModIds_def)

lemma launch_parameters_plain:
  assumes "split_at_first ''{{gameMode}}'' (fst (PARAMS_TEMPLATE ev)) = Some (b0, a0)"
    and "split_at_first ''{{subModIds}}'' (snd (PARAMS_TEMPLATE ev)) = Some (b1, a1)"
    and "enabledSubMods (CACHE st) (LAUNCHER_DATA st) lo = Inr ids"
    and "\<forall>i \<in> set ids. CHR ''$'' \<notin> set i"
  shows "refreshGameParams ev lo st =
           (Resolved (),
            st\<lparr>gameParameters :=
                  Some (BANNERLORD_EXEC ev,
                        [b0 @ ''singleplayer'' @ a0, b1 @ formatSubModIds ids @ a1])\<rparr>)"
proof -
  have "replace (fst (PARAMS_TEMPLATE ev)) ''{{gameMode}}'' ''singleplayer'' = b0 @ ''singleplayer'' @ a0"
    using assms(1) by (intro replace_plain) simp_all
  moreover have "replace (snd (PARAMS_TEMPLATE ev)) ''{{subModIds}}'' (formatSubModIds ids)
      = b1 @ formatSubModIds ids @ a1"
    using assms(2,4) by (intro replace_plain formatSubModIds_plain)
  ultimately show ?thesis using assms(3) by (simp add: refreshGameParams_def)
qed

section \<open>Reconciliation with the user load order\<close>



section \<open>Reconciliation without a user load order\<close>

text \<open>
  C5. When no user load order exists (it is undefined or has no entry) the final id
  sequence is the singleplayer entries of the launcher preferences filtered to enabled
  true, in their declared order; the preferences X enabled, Y disabled give exactly X.
\<close>

theorem launcher_fallback_used:
  "(lo = None \<or> lo = Some [] \<longrightarrow> enabledSubMods c ld lo = Inr (launcher_fallback ld)) \<and>
   enabledSubMods c
     \<lparr>singlePlayerSubMods = [\<lparr>subModId = ''X'', enabled_m = True\<rparr>,
                              \<lparr>subModId = ''Y'', enabled_m = False\<rparr>],
      multiplayerSubMods = mp\<rparr> None = Inr [''X'']"
  by (auto simp: enabledSubMods_def launcher_fallback_def)

theorem launcher_fallback_used_witness:
  "enabledSubMods [(''A'', demo_record ''va'')]
     \<lparr>singlePlayerSubMods = [\<lparr>subModId = ''Native'', enabled_m = True\<rparr>,
                              \<lparr>subModId = ''Off'', enabled_m = False\<rparr>,
                              \<lparr>subModId = ''StoryMode'', enabled_m = True\<rparr>],
      multiplayerSubMods = []\<rparr> (Some []) = Inr [''Native'', ''StoryMode'']"
  using launcher_fallback_used
     [of "Some []" "[(''A'', demo_record ''va'')]"
         "\<lparr>singlePlayerSubMods = [\<lparr>subModId = ''Native'', enabled_m = True\<rparr>,
                              \<lparr>subModId = ''Off'', enabled_m = False\<rparr>,
                              \<lparr>subModId = ''StoryMode'', enabled_m = True\<rparr>],
      multiplayerSubMods = []\<rparr>"]
  by (simp add: launcher_fallback_def)

section \<open>The validation query\<close>

text \<open>
  C2. For every vortexId the validation query returns an object with a cyclic and a
  missing list and never fails. The lists are empty when no record carries the vortexId;
  otherwise they are \<^verbatim>\<open>invalid.cyclic\<close> and \<^verbatim>\<open>invalid.missing\<close> of the first record
  carrying it, each empty when the record has no such field.
\<close>

theorem validation_query_safe:
  "\<not> isl (getValidationInfo c v) \<and>
   ((\<forall>r \<in> snd ` set c. vortexId r \<noteq> Some v) \<longrightarrow>
      getValidationInfo c v = Inr \<lparr>cyclic = [], missing = []\<rparr>) \<and>
   (distinct (map fst c) \<and> List.find (\<lambda>(k, r). vortexId r = Some v) c = Some (k, r) \<longrightarrow>
      getValidationInfo c v =
        Inr \<lparr>cyclic = (case invalid r of None \<Rightarrow> [] | Some i \<Rightarrow> or_empty (cyclic_f i)),
             missing = (case invalid r of None \<Rightarrow> [] | Some i \<Rightarrow> or_empty (missing_f i))\<rparr>)"
proof (intro conjI impI)
  show "\<not> isl (getValidationInfo c v)"
    by (simp add: getValidationInfo_def find_vortexId_total Let_def)
next
  assume a: "\<forall>r \<in> snd ` set c. vortexId r \<noteq> Some v"
  then have "List.find (carries c v) (cache_keys c) = None"
    by (rule find_carries_None)
  then show "getValidationInfo c v = Inr \<lparr>cyclic = [], missing = []\<rparr>"
    by (simp add: getValidationInfo_def find_vortexId_total getSafe_invalid_def)
next
  assume a: "distinct (map fst c) \<and> List.find (\<lambda>(k, r). vortexId r = Some v) c = Some (k, r)"
  then have "List.find (carries c v) (cache_keys c) = Some k"
    by (simp add: find_keys_entries cacheIdOf_Some)
  moreover from a have "(k, r) \<in> set c" by (auto dest: find_in_set)
  with a have "cache_get c k = Some r" by (simp add: cache_get_def)
  ultimately show "getValidationInfo c v =
        Inr \<lparr>cyclic = (case invalid r of None \<Rightarrow> [] | Some i \<Rightarrow> or_empty (cyclic_f i)),
             missing = (case invalid r of None \<Rightarrow> [] | Some i \<Rightarrow> or_empty (missing_f i))\<rparr>"
    by (simp add: getValidationInfo_def find_vortexId_total getSafe_invalid_def or_empty_def
        split: option.splits)
qed

theorem validation_query_safe_witness:
  "getValidationInfo
     [(''A'', demo_record ''va''),
      (''B'', \<lparr>vortexId = Some ''vb'', dependencies = [''A'', ''C''],
               invalid = Some \<lparr>cyclic_f = None, missing_f = Some [''C'']\<rparr>\<rparr>)] ''vb''
     = Inr \<lparr>cyclic = [], missing = [''C'']\<rparr> \<and>
   getValidationInfo [(''A'', demo_record ''va'')] ''B'' = Inr \<lparr>cyclic = [], missing = []\<rparr>"
  using validation_query_safe
     [of "[(''A'', demo_record ''va''),
      (''B'', \<lparr>vortexId = Some ''vb'', dependencies = [''A'', ''C''],
               invalid = Some \<lparr>cyclic_f = None, missing_f = Some [''C'']\<rparr>\<rparr>)]" "''vb''" "''B''"
         "\<lparr>vortexId = Some ''vb'', dependencies = [''A'', ''C''],
               invalid = Some \<lparr>cyclic_f = None, missing_f = Some [''C'']\<rparr>\<rparr>"]
    validation_query_safe [of "[(''A'', demo_record ''va'')]" "''B''" "''A''" "demo_record ''va''"]
  by (simp add: demo_record_def or_empty_def)

section \<open>Refresh events of another profile\<close>

text \<open>
  C3, amended. A refresh event whose profile id denotes a profile other than the active
  one, or that finds the active profile on another game or absent, resolves without a
  scan, without the refresh callback and without emitting game parameters; the module
  cache is emptied by the call, everything else is left as it was.
\<close>

theorem foreign_refresh_clears:
  assumes "foreign_profile sto pid \<or> foreign_game ev sto"
  shows "refreshCacheOnEvent ev sto rf (Some pid) st = (Resolved (), st\<lparr>CACHE := []\<rparr>)"
  using assms
  by (auto simp: refreshCacheOnEvent_def foreign_profile_def foreign_game_def Let_def
      split: option.splits)

theorem foreign_refresh_clears_witness:
  "refreshCacheOnEvent (demo_env demo_walk_ok demo_read (Inl (mk_error NotFound ''no file'')))
     (demo_store (Some ''C:/game'')) True (Some ''p2'')
     (demo_state [(''Native'', demo_record ''Native'')] [])
   = (Resolved (), demo_state [] [])"
  using foreign_refresh_clears
    [of "demo_store (Some ''C:/game'')" "''p2''"
        "demo_env demo_walk_ok demo_read (Inl (mk_error NotFound ''no file''))" True
        "demo_state [(''Native'', demo_record ''Native'')] []"]
  by (simp add: foreign_profile_def demo_store_def demo_profile_def demo_state_def)

text \<open>
  The claim as first stated, that the cache contents are unchanged, fails: the cache is
  cleared before the profile is looked at.
\<close>

theorem foreign_refresh_empties_cache:
  "foreign_profile (demo_store (Some ''C:/game'')) ''p2'' \<and>
   CACHE (snd (refreshCacheOnEvent
                 (demo_env demo_walk_ok demo_read (Inl (mk_error NotFound ''no file'')))
                 (demo_store (Some ''C:/game'')) True (Some ''p2'')
                 (demo_state [(''Native'', demo_record ''Native'')] [])))
   \<noteq> CACHE (demo_state [(''Native'', demo_record ''Native'')] [])"
  by (simp add: refreshCacheOnEvent_def foreign_profile_def demo_store_def demo_profile_def
      demo_state_def)

section \<open>Rebuilding the cache\<close>

text \<open>
  C4, amended. A rebuild clears the cache and then fills it in place. In a refresh that
  no other refresh overlaps, what a reader sees while the rebuild waits for I/O is
  the emptied cache, never a part of the new entries; the clear precedes the
  repopulation, so the result does not depend on the previous contents; and when the
  manifests are read, the cache holds exactly the entries of this scan.
\<close>

theorem rebuild_clears_then_fills:
  "only_empty_seen st (snd (refreshCacheOnEvent ev sto rf pid st)) \<and>
   only_empty_seen st (snd (prepareForModding ev sto st)) \<and>
   rebuildCache ev sto (st\<lparr>CACHE := c\<rparr>) = rebuildCache ev sto st \<and>
   (distinct (map fst d) \<and>
    fst (getDeployedSubModPaths ev sto (st\<lparr>CACHE := []\<rparr>)) = Resolved files \<and>
    getDeployedModData ev files = Inr d \<longrightarrow>
      CACHE (snd (rebuildCache ev sto st)) = d)"
proof (intro conjI impI)
  show "only_empty_seen st (snd (refreshCacheOnEvent ev sto rf pid st))"
    using refresh_seen [of ev sto rf pid st] by (blast intro: only_empty_seenI)
  show "only_empty_seen st (snd (prepareForModding ev sto st))"
    using prepare_seen [of ev sto st] by (blast intro: only_empty_seenI)
  show "rebuildCache ev sto (st\<lparr>CACHE := c\<rparr>) = rebuildCache ev sto st"
    by (rule rebuild_forgets)
next
  assume "distinct (map fst d) \<and>
    fst (getDeployedSubModPaths ev sto (st\<lparr>CACHE := []\<rparr>)) = Resolved files \<and>
    getDeployedModData ev files = Inr d"
  then show "CACHE (snd (rebuildCache ev sto st)) = d"
    by (blast intro: rebuild_result)
qed

theorem rebuild_clears_then_fills_witness:
  "CACHE (snd (rebuildCache (demo_env demo_walk_ok demo_read (Inl (mk_error NotFound ''no file'')))
                 (demo_store (Some ''C:/game''))
                 (demo_state [(''Old'', demo_record ''Old'')] [])))
   = [(''New'', demo_record ''New'')]"
proof -
  have "distinct (map fst [(''New'', demo_record ''New'')]) \<and>
    fst (getDeployedSubModPaths (demo_env demo_walk_ok demo_read (Inl (mk_error NotFound ''no file'')))
           (demo_store (Some ''C:/game''))
           ((demo_state [(''Old'', demo_record ''Old'')] [])\<lparr>CACHE := []\<rparr>))
      = Resolved [''C:/game/Modules/New/SubModule.xml''] \<and>
    getDeployedModData (demo_env demo_walk_ok demo_read (Inl (mk_error NotFound ''no file'')))
      [''C:/game/Modules/New/SubModule.xml''] = Inr [(''New'', demo_record ''New'')]"
    by (simp add: getDeployedSubModPaths_def demo_env_def demo_store_def demo_walk_ok_def
        demo_read_def demo_basename_def is_sep_def toLowerCase_def lower_char_def)
  with rebuild_clears_then_fills
    [of "demo_state [(''Old'', demo_record ''Old'')] []"
        "demo_env demo_walk_ok demo_read (Inl (mk_error NotFound ''no file''))"
        "demo_store (Some ''C:/game'')" True "Some ''p1''" "[]"
        "[(''New'', demo_record ''New'')]" "[''C:/game/Modules/New/SubModule.xml'']"]
  show ?thesis by blast
qed

text \<open>
  The claim as first stated, a rebuild that swaps a finished cache in, fails: between
  the clear and the fill a reader finds the cache empty, which is neither the cache
  before the refresh nor the cache after it.
\<close>

theorem empty_cache_seen_between:
  "seen_during (demo_state [(''Old'', demo_record ''Old'')] [])
     (snd (refreshCacheOnEvent (demo_env demo_walk_ok demo_read (Inl (mk_error NotFound ''no file'')))
             (demo_store (Some ''C:/game'')) True (Some ''p1'')
             (demo_state [(''Old'', demo_record ''Old'')] []))) = [[], []] \<and>
   CACHE (demo_state [(''Old'', demo_record ''Old'')] []) = [(''Old'', demo_record ''Old'')] \<and>
   CACHE (snd (refreshCacheOnEvent (demo_env demo_walk_ok demo_read (Inl (mk_error NotFound ''no file'')))
             (demo_store (Some ''C:/game'')) True (Some ''p1'')
             (demo_state [(''Old'', demo_record ''Old'')] []))) = [(''New'', demo_record ''New'')] \<and>
   \<not> swap_atomic (demo_state [(''Old'', demo_record ''Old'')] [])
     (snd (refreshCacheOnEvent (demo_env demo_walk_ok demo_read (Inl (mk_error NotFound ''no file'')))
             (demo_store (Some ''C:/game'')) True (Some ''p1'')
             (demo_state [(''Old'', demo_record ''Old'')] [])))"
  by (simp add: swap_atomic_def seen_during_def refreshCacheOnEvent_def rebuildCache_def
      getDeployedSubModPaths_def demo_env_def demo_store_def demo_walk_ok_def demo_profile_def
      demo_read_def demo_basename_def is_sep_def toLowerCase_def lower_char_def demo_state_def await_io_def
      getSafe_loadOrder_def refreshGameParams_def enabledSubMods_def cache_keys_def)

section \<open>A failed directory walk\<close>

text \<open>
  C7, amended. When the directory walk fails with an error that is not a user's
  cancellation: if the error is ENOENT on a path whose base name is the Modules
  directory or an official module directory, the scan shows the notification that asks
  to re-install the game; if the error has another code, or is ENOENT on a path with
  another base name, the scan shows the message of the error. In both cases the scan
  resolves with an empty list of manifests, so the refresh pass goes on with an empty
  scan. An ENOENT error that carries no path is not part of this statement.
\<close>

theorem walk_failure_notified:
  assumes "discoveryPath sto = Some dp"
    and "walkAsync ev (path_join ev dp (MODULES ev)) = Inl err"
    and "cls err \<noteq> UserCanceled"
  shows "(code err = Some ''ENOENT'' \<and> path err = Some p \<and>
          path_basename ev p \<in> set (MODULES ev # OFFICIAL_MODULES ev) \<longrightarrow>
            getDeployedSubModPaths ev sto st =
              (Resolved [],
               notify ''Game files are missing - please re-install the game'' (at_walk ev dp st))) \<and>
         (code err \<noteq> Some ''ENOENT'' \<or>
          (path err = Some p \<and> path_basename ev p \<notin> set (MODULES ev # OFFICIAL_MODULES ev)) \<longrightarrow>
            getDeployedSubModPaths ev sto st =
              (Resolved [], notify (message err) (at_walk ev dp st)))"
  using assms
  by (auto simp: getDeployedSubModPaths_def isMissingOfficialModules_def at_walk_def Let_def)

theorem walk_failure_notified_witness:
  "getDeployedSubModPaths
     (demo_env (demo_walk_enoent ''C:/game/Modules/Native'') demo_read (Inl (mk_error NotFound ''no file'')))
     (demo_store (Some ''C:/game'')) (demo_state [] [])
   = (Resolved [],
      (demo_state [] [])\<lparr>notifications := [''Game files are missing - please re-install the game''],
                         walked := [''C:/game/Modules''], suspended := [[]]\<rparr>) \<and>
   getDeployedSubModPaths
     (demo_env (demo_walk_enoent ''C:/game/Modules/MyMod/bin'') demo_read (Inl (mk_error NotFound ''no file'')))
     (demo_store (Some ''C:/game'')) (demo_state [] [])
   = (Resolved [],
      (demo_state [] [])\<lparr>notifications := [''ENOENT: no such file or directory''],
                         walked := [''C:/game/Modules''], suspended := [[]]\<rparr>)"
  using walk_failure_notified
    [of "demo_store (Some ''C:/game'')" "''C:/game''"
        "demo_env (demo_walk_enoent ''C:/game/Modules/Native'') demo_read (Inl (mk_error NotFound ''no file''))"
        "\<lparr>cls = OtherError, message = ''ENOENT: no such file or directory'',
          code = Some ''ENOENT'', path = Some ''C:/game/Modules/Native''\<rparr>"
        "''C:/game/Modules/Native''" "demo_state [] []"]
    walk_failure_notified
    [of "demo_store (Some ''C:/game'')" "''C:/game''"
        "demo_env (demo_walk_enoent ''C:/game/Modules/MyMod/bin'') demo_read (Inl (mk_error NotFound ''no file''))"
        "\<lparr>cls = OtherError, message = ''ENOENT: no such file or directory'',
          code = Some ''ENOENT'', path = Some ''C:/game/Modules/MyMod/bin''\<rparr>"
        "''C:/game/Modules/MyMod/bin''" "demo_state [] []"]
  by (simp add: demo_store_def demo_env_def demo_walk_enoent_def demo_basename_def is_sep_def demo_state_def
      at_walk_def await_io_def notify_def)

text \<open>
  The claim as first stated, that the scan fails and the refresh pass ends there, does
  not hold: with the Modules directory absent the scan resolves, and the refresh calls
  the refresh callback and emits the game parameters.
\<close>

theorem official_missing_not_fatal:
  "walkAsync (demo_env (demo_walk_enoent ''C:/game/Modules'') demo_read (Inl (mk_error NotFound ''no file'')))
     ''C:/game/Modules''
     = Inl \<lparr>cls = OtherError, message = ''ENOENT: no such file or directory'',
            code = Some ''ENOENT'', path = Some ''C:/game/Modules''\<rparr> \<and>
   fst (getDeployedSubModPaths
     (demo_env (demo_walk_enoent ''C:/game/Modules'') demo_read (Inl (mk_error NotFound ''no file'')))
     (demo_store (Some ''C:/game'')) (demo_state [] [])) = Resolved [] \<and>
   refreshCacheOnEvent
     (demo_env (demo_walk_enoent ''C:/game/Modules'') demo_read (Inl (mk_error NotFound ''no file'')))
     (demo_store (Some ''C:/game'')) True (Some ''p1'') (demo_state [] [])
   = (Resolved (),
      (demo_state [] [])\<lparr>notifications := [''Game files are missing - please re-install the game''],
                         gameParameters := Some (''Bannerlord.exe'', [''/singleplayer'', ''_MODULES_*_MODULES_'']),
                         refreshed := 1,
                         walked := [''C:/game/Modules''], suspended := [[], []]\<rparr>)"
  by (simp add: demo_store_def demo_env_def demo_walk_enoent_def demo_basename_def is_sep_def demo_state_def
      await_io_def notify_def getDeployedSubModPaths_def isMissingOfficialModules_def
      refreshCacheOnEvent_def rebuildCache_def demo_profile_def demo_read_def getSafe_loadOrder_def
      refreshGameParams_def enabledSubMods_def replace_def formatSubModIds_def cache_keys_def)

section \<open>Unknown installation path\<close>

text \<open>
  C9, amended. When the installation path is unknown the scan is rejected with
  ProcessCanceled (game discovery is incomplete) before any directory walk: the state,
  with the list of walked paths, is untouched. refreshCacheOnEvent resolves that
  rejection and surfaces nothing: no notification, no refresh callback, no parameters.
  The call is a no-op but for the cache, which it leaves empty: it was cleared before
  the scan began.
\<close>

theorem discovery_incomplete_graceful:
  assumes "discoveryPath sto = None"
  shows "getDeployedSubModPaths ev sto st =
           (Rejected (mk_error ProcessCanceled ''game discovery is incomplete''), st) \<and>
         refreshCacheOnEvent ev sto rf pid st = (Resolved (), st\<lparr>CACHE := []\<rparr>) \<and>
         notifications (snd (refreshCacheOnEvent ev sto rf pid st)) = notifications st \<and>
         walked (snd (refreshCacheOnEvent ev sto rf pid st)) = walked st \<and>
         gameParameters (snd (refreshCacheOnEvent ev sto rf pid st)) = gameParameters st \<and>
         refreshed (snd (refreshCacheOnEvent ev sto rf pid st)) = refreshed st"
proof -
  have scan: "getDeployedSubModPaths ev sto s =
           (Rejected (mk_error ProcessCanceled ''game discovery is incomplete''), s)" for s
    using assms by (simp add: getDeployedSubModPaths_def)
  have "refreshCacheOnEvent ev sto rf pid st = (Resolved (), st\<lparr>CACHE := []\<rparr>)"
    by (simp add: refreshCacheOnEvent_def rebuildCache_def scan Let_def mk_error_def)
  with scan show ?thesis by simp
qed

theorem discovery_incomplete_graceful_witness:
  "getDeployedSubModPaths (demo_env demo_walk_ok demo_read (Inl (mk_error NotFound ''no file'')))
     (demo_store None) (demo_state [(''Native'', demo_record ''Native'')] [])
     = (Rejected (mk_error ProcessCanceled ''game discovery is incomplete''),
        demo_state [(''Native'', demo_record ''Native'')] []) \<and>
   refreshCacheOnEvent (demo_env demo_walk_ok demo_read (Inl (mk_error NotFound ''no file'')))
     (demo_store None) True (Some ''p1'') (demo_state [(''Native'', demo_record ''Native'')] [])
     = (Resolved (), demo_state [] [])"
  using discovery_incomplete_graceful
    [of "demo_store None" "demo_env demo_walk_ok demo_read (Inl (mk_error NotFound ''no file''))"
        "demo_state [(''Native'', demo_record ''Native'')] []" True "Some ''p1''"]
  by (simp add: demo_store_def demo_state_def)

text \<open>
  The claim as first stated, a no-op, fails on a cache that holds a module: the refresh
  resolves, and the module is gone from the cache.
\<close>

theorem discovery_incomplete_empties_cache:
  "discoveryPath (demo_store None) = None \<and>
   map_option gameId (activeProfile (demo_store None))
     = Some (GAME_ID (demo_env demo_walk_ok demo_read (Inl (mk_error NotFound ''no file'')))) \<and>
   snd (refreshCacheOnEvent (demo_env demo_walk_ok demo_read (Inl (mk_error NotFound ''no file'')))
          (demo_store None) True (Some ''p1'') (demo_state [(''Native'', demo_record ''Native'')] []))
     \<noteq> demo_state [(''Native'', demo_record ''Native'')] [] \<and>
   CACHE (snd (refreshCacheOnEvent (demo_env demo_walk_ok demo_read (Inl (mk_error NotFound ''no file'')))
          (demo_store None) True (Some ''p1'') (demo_state [(''Native'', demo_record ''Native'')] [])))
     = []"
  by (simp add: refreshCacheOnEvent_def rebuildCache_def getDeployedSubModPaths_def demo_store_def
      demo_env_def demo_profile_def demo_state_def mk_error_def)

section \<open>The launch parameters\<close>

text \<open>
  C6. The emitted parameters should be the two template fragments with the game mode
  and the concatenation of the starred ids in place of the placeholders. For an id that
  holds two dollar signs the code emits one of them only: the replacement text goes
  through the dollar patterns of \<^verbatim>\<open>String.prototype.replace\<close>.
\<close>

theorem dollar_in_id_expanded:
  "formatSubModIds [''Native'', ''My$$Mod''] = ''*Native*My$$Mod'' \<and>
   refreshGameParams (demo_env demo_walk_ok demo_read (Inl (mk_error NotFound ''no file''))) None
     (demo_state [] [\<lparr>subModId = ''Native'', enabled_m = True\<rparr>,
                     \<lparr>subModId = ''My$$Mod'', enabled_m = True\<rparr>])
   = (Resolved (),
      (demo_state [] [\<lparr>subModId = ''Native'', enabled_m = True\<rparr>,
                      \<lparr>subModId = ''My$$Mod'', enabled_m = True\<rparr>])
        \<lparr>gameParameters :=
           Some (''Bannerlord.exe'', [''/singleplayer'', ''_MODULES_*Native*My$Mod*_MODULES_''])\<rparr>)"
  by (simp add: refreshGameParams_def enabledSubMods_def demo_env_def demo_state_def
      formatSubModIds_def replace_def)

section \<open>Entries of the launcher preferences without their fields\<close>





section \<open>Renderer write-back\<close>

text \<open>
  C10, amended. For an item whose entry is in the order, the entry written back to the
  host is, under the same profile and item id: on locking or unlocking, the stored entry
  with only locked changed (position and enabled preserved); on toggling the checkbox,
  the stored entry with only enabled changed when the entry has a locked field
  (position and locked preserved), and otherwise the stored entry with enabled changed
  and the absent locked field written as false.
\<close>

theorem write_back_changes_only_target:
  assumes "map_of (order props) (item_id props) = Some e"
  shows "(locked e \<noteq> None \<longrightarrow>
            onStatusChange checked props =
              Inr (profile_id (profile props), item_id props, e\<lparr>enabled := checked\<rparr>)) \<and>
         (locked e = None \<longrightarrow>
            onStatusChange checked props =
              Inr (profile_id (profile props), item_id props,
                   e\<lparr>enabled := checked, locked := Some False\<rparr>)) \<and>
         onLock props lock =
           Inr (profile_id (profile props), item_id props, e\<lparr>locked := Some lock\<rparr>)"
  using assms by (auto simp: onStatusChange_def onLock_def)

theorem write_back_changes_only_target_witness:
  "onStatusChange False
     \<lparr>profile = \<lparr>profile_id = ''p1'', gameId = ''mountandblade2bannerlord''\<rparr>,
      order = [(''ModA'', \<lparr>pos = 3, enabled = True, locked = Some True\<rparr>),
               (''ModB'', \<lparr>pos = 4, enabled = True, locked = None\<rparr>)],
      item_id = ''ModA''\<rparr>
     = Inr (''p1'', ''ModA'', \<lparr>pos = 3, enabled = False, locked = Some True\<rparr>) \<and>
   onLock
     \<lparr>profile = \<lparr>profile_id = ''p1'', gameId = ''mountandblade2bannerlord''\<rparr>,
      order = [(''ModA'', \<lparr>pos = 3, enabled = True, locked = Some True\<rparr>),
               (''ModB'', \<lparr>pos = 4, enabled = True, locked = None\<rparr>)],
      item_id = ''ModA''\<rparr> False
     = Inr (''p1'', ''ModA'', \<lparr>pos = 3, enabled = True, locked = Some False\<rparr>) \<and>
   onStatusChange False
     \<lparr>profile = \<lparr>profile_id = ''p1'', gameId = ''mountandblade2bannerlord''\<rparr>,
      order = [(''ModA'', \<lparr>pos = 3, enabled = True, locked = Some True\<rparr>),
               (''ModB'', \<lparr>pos = 4, enabled = True, locked = None\<rparr>)],
      item_id = ''ModB''\<rparr>
     = Inr (''p1'', ''ModB'', \<lparr>pos = 4, enabled = False, locked = Some False\<rparr>)"
  using write_back_changes_only_target
    [of "\<lparr>profile = \<lparr>profile_id = ''p1'', gameId = ''mountandblade2bannerlord''\<rparr>,
          order = [(''ModA'', \<lparr>pos = 3, enabled = True, locked = Some True\<rparr>),
               (''ModB'', \<lparr>pos = 4, enabled = True, locked = None\<rparr>)],
          item_id = ''ModA''\<rparr>"
        "\<lparr>pos = 3, enabled = True, locked = Some True\<rparr>" False False]
    write_back_changes_only_target
    [of "\<lparr>profile = \<lparr>profile_id = ''p1'', gameId = ''mountandblade2bannerlord''\<rparr>,
          order = [(''ModA'', \<lparr>pos = 3, enabled = True, locked = Some True\<rparr>),
               (''ModB'', \<lparr>pos = 4, enabled = True, locked = None\<rparr>)],
          item_id = ''ModB''\<rparr>"
        "\<lparr>pos = 4, enabled = True, locked = None\<rparr>" False False]
  by simp

text \<open>
  The claim as first stated, that a toggle changes the enabled field only, fails for an
  entry without locked field: the entry written has locked false, also when the checkbox
  value is the stored one.
\<close>

theorem toggle_adds_locked_false:
  "map_of [(''ModB'', \<lparr>pos = 4, enabled = True, locked = None\<rparr>)] ''ModB''
     = Some \<lparr>pos = 4, enabled = True, locked = None\<rparr> \<and>
   onStatusChange True
     \<lparr>profile = \<lparr>profile_id = ''p1'', gameId = ''mountandblade2bannerlord''\<rparr>,
      order = [(''ModB'', \<lparr>pos = 4, enabled = True, locked = None\<rparr>)],
      item_id = ''ModB''\<rparr>
     = Inr (''p1'', ''ModB'', \<lparr>pos = 4, enabled = True, locked = Some False\<rparr>) \<and>
   onStatusChange True
     \<lparr>profile = \<lparr>profile_id = ''p1'', gameId = ''mountandblade2bannerlord''\<rparr>,
      order = [(''ModB'', \<lparr>pos = 4, enabled = True, locked = None\<rparr>)],
      item_id = ''ModB''\<rparr>
     \<noteq> Inr (''p1'', ''ModB'', \<lparr>pos = 4, enabled = True, locked = None\<rparr>\<lparr>enabled := True\<rparr>)"
  by (simp add: onStatusChange_def)


end
